theory Spec2Isabelle
  imports Main
begin

section \<open>Values of the JavaScript runtime\<close>

text \<open>
  The server (\<^verbatim>\<open>server.js\<close>) computes with times in milliseconds since the epoch.
  They are integer-valued JavaScript numbers far below \<open>2^53\<close>, so a number is
  modelled as an \<open>int\<close>, and \<open>None\<close> stands for \<^verbatim>\<open>NaN\<close>.  A \<^verbatim>\<open>Date\<close> object is its
  time value, \<open>None\<close> for an Invalid Date.
\<close>

type_synonym num = "int option"
type_synonym date = "int option"

text \<open>The largest time value a \<^verbatim>\<open>Date\<close> can hold (ECMAScript: 8.64e15 ms).\<close>

definition maxTime :: int where
  "maxTime = 8640000000000000"

text \<open>\<^verbatim>\<open>new Date(value)\<close> for a number: the value is clipped to the Date range.\<close>

definition newDate :: "num \<Rightarrow> date" where
  "newDate v = (case v of None \<Rightarrow> None
                | Some t \<Rightarrow> if \<bar>t\<bar> \<le> maxTime then Some t else None)"

definition getTime :: "date \<Rightarrow> num" where
  "getTime d = d"

text \<open>Arithmetic and comparison of numbers: \<^verbatim>\<open>NaN\<close> is absorbing and compares false.\<close>

definition addNum :: "num \<Rightarrow> num \<Rightarrow> num" where
  "addNum a b = (case a of None \<Rightarrow> None
                 | Some x \<Rightarrow> (case b of None \<Rightarrow> None | Some y \<Rightarrow> Some (x + y)))"

definition subNum :: "num \<Rightarrow> num \<Rightarrow> num" where
  "subNum a b = (case a of None \<Rightarrow> None
                 | Some x \<Rightarrow> (case b of None \<Rightarrow> None | Some y \<Rightarrow> Some (x - y)))"

definition leNum :: "num \<Rightarrow> num \<Rightarrow> bool" where
  "leNum a b = (case a of None \<Rightarrow> False
                | Some x \<Rightarrow> (case b of None \<Rightarrow> False | Some y \<Rightarrow> x \<le> y))"

text \<open>
  A value of a parsed form body (\<^verbatim>\<open>querystring.parse\<close>): a string, or an array of
  strings when the key occurs more than once.  A missing key is \<^verbatim>\<open>undefined\<close>,
  modelled as \<open>None\<close>.
\<close>

datatype qsval = QStr string | QArr "string list"

type_synonym form = "string \<rightharpoonup> qsval"

fun truthy :: "qsval option \<Rightarrow> bool" where
  "truthy None = False"
| "truthy (Some (QStr s)) = (s \<noteq> [])"
| "truthy (Some (QArr xs)) = True"

text \<open>\<^verbatim>\<open>data.k || ''\<close>\<close>

definition orEmpty :: "qsval option \<Rightarrow> qsval" where
  "orEmpty v = (case v of None \<Rightarrow> QStr []
                | Some x \<Rightarrow> if truthy (Some x) then x else QStr [])"

text \<open>Conversion to a string: an array is joined with commas.\<close>

fun joinComma :: "string list \<Rightarrow> string" where
  "joinComma [] = []"
| "joinComma [s] = s"
| "joinComma (s # t # ss) = s @ '','' @ joinComma (t # ss)"

fun toString :: "qsval \<Rightarrow> string" where
  "toString (QStr s) = s"
| "toString (QArr xs) = joinComma xs"


section \<open>Mail, timers and the state of the process\<close>

text \<open>
  The subjects and HTML bodies of the seven messages are fixed texts with the first
  name, the formatted date and the join link filled in; a message is represented by the
  recipient and by which of the seven texts it carries.
\<close>

datatype template =
  Confirmation | DayBefore | FiveHours | OneHour | HalfHour | AfterSession | AdminNotice

record mail =
  to :: qsval
  content :: template

record registration =
  firstName :: qsval
  lastName :: qsval
  email :: qsval
  session :: string

text \<open>
  What the process does to the outside, in the order it does it:
  \<^item> \<open>SendMail\<close>: \<^verbatim>\<open>sendEmail\<close> hands a message to the transporter;
  \<^item> \<open>SetTimeout\<close>: \<^verbatim>\<open>setTimeout(schedule, delay)\<close> with its delay argument;
  \<^item> \<open>AirtableCreate\<close>: the record created in the external ledger.
\<close>

datatype action =
  SendMail mail
| SetTimeout num mail
| AirtableCreate registration

text \<open>One entry of \<^verbatim>\<open>views.json\<close>.\<close>

record view =
  watched :: int
  completed :: bool
  lastPing :: "string option"

text \<open>
  The state: the two JSON files (\<open>None\<close> when reading or parsing the file throws), the
  other files on disk (absolute path, as segments, to content) and the log of actions.
  \<^verbatim>\<open>registrations.json\<close> is created as \<^verbatim>\<open>[]\<close> and only ever rewritten with an array
  (an interrupted write leaves a text that does not parse), so a file that parses holds
  a list.
\<close>

record world =
  regFile :: "registration list option"
  viewsFile :: "(string \<rightharpoonup> view) option"
  disk :: "string list \<rightharpoonup> string"
  effects :: "action list"

text \<open>
  The environment of the process: \<^verbatim>\<open>Date.parse\<close> and \<^verbatim>\<open>toISOString\<close> of the runtime,
  whether Airtable is configured, the directory of \<^verbatim>\<open>server.js\<close>, and the readings of
  \<^verbatim>\<open>Date.now()\<close> (the \<open>k\<close>-th reading during the handling of one request).
\<close>

record env =
  dateParse :: "string \<Rightarrow> num"
  toISOString :: "int \<Rightarrow> string"
  airtableBase :: bool
  dirname :: "string list"
  now :: "nat \<Rightarrow> int"

definition sendEmail :: "qsval \<Rightarrow> template \<Rightarrow> world \<Rightarrow> world" where
  "sendEmail rcpt c w = w\<lparr>effects := effects w @ [SendMail \<lparr>to = rcpt, content = c\<rparr>]\<rparr>"

definition setTimeout :: "mail \<Rightarrow> num \<Rightarrow> world \<Rightarrow> world" where
  "setTimeout m delay w = w\<lparr>effects := effects w @ [SetTimeout delay m]\<rparr>"

text \<open>
  \<^verbatim>\<open>scheduleEmail(eventDate, offsetMs, to, subject, html)\<close>, with the reading of
  \<^verbatim>\<open>Date.now()\<close> as first argument.
\<close>

definition scheduleEmail :: "int \<Rightarrow> date \<Rightarrow> int \<Rightarrow> qsval \<Rightarrow> template \<Rightarrow> world \<Rightarrow> world" where
  "scheduleEmail dateNow eventDate offsetMs rcpt c w =
     (let sendTime = newDate (addNum (getTime eventDate) (Some offsetMs));
          delay = subNum (getTime sendTime) (Some dateNow)
      in if leNum delay (Some 0) then sendEmail rcpt c w
         else setTimeout \<lparr>to = rcpt, content = c\<rparr> delay w)"

text \<open>
  Node.js timers: a delay that is \<^verbatim>\<open>NaN\<close>, below 1 or above \<open>2^31 - 1\<close> is set to 1
  (\<^verbatim>\<open>TIMEOUT_MAX\<close> in \<^verbatim>\<open>lib/internal/timers.js\<close>; the documentation of \<^verbatim>\<open>setTimeout\<close>
  says the same).  \<open>timerDelay\<close> is the delay the runtime waits for,
  \<open>firesAt\<close> the earliest time at which a timer armed at \<open>dateNow\<close> runs.
\<close>

definition TIMEOUT_MAX :: int where
  "TIMEOUT_MAX = 2 ^ 31 - 1"

definition timerDelay :: "num \<Rightarrow> int" where
  "timerDelay delay = (case delay of None \<Rightarrow> 1
                       | Some d \<Rightarrow> if 1 \<le> d \<and> d \<le> TIMEOUT_MAX then d else 1)"

definition firesAt :: "int \<Rightarrow> action \<Rightarrow> int option" where
  "firesAt dateNow a = (case a of SetTimeout delay m \<Rightarrow> Some (dateNow + timerDelay delay)
                        | _ \<Rightarrow> None)"

section \<open>Requests and responses\<close>

datatype verb = GET | POST | OTHER

text \<open>
  The JSON body of a tracking request as the tracking code reads it:
  \<^verbatim>\<open>String(body.token || '')\<close> and \<^verbatim>\<open>Number(body.watchedSeconds || 0)\<close>.
\<close>

record trackBody =
  tokenString :: string
  watchedNumber :: num

text \<open>
  A request: its method, \<^verbatim>\<open>decodeURIComponent(url.pathname)\<close>, the body parsed as a
  form and as JSON, and whether \<^verbatim>\<open>new URL('/masterclass.html', baseUrl)\<close> accepts the
  base URL (taken from \<^verbatim>\<open>APP_BASE_URL\<close>, \<^verbatim>\<open>BASE_URL\<close> or the forwarded headers of the
  request); the constructor throws a \<^verbatim>\<open>TypeError\<close> otherwise.  A request whose URL
  cannot be parsed or decoded (lines 259 and 260 throw) does not reach the routing and
  has no \<open>request\<close>.
\<close>

record request =
  reqMethod :: verb
  pathname :: string
  formBody :: form
  jsonBody :: trackBody
  baseUrlValid :: bool

text \<open>
  The responses the server writes.  \<open>Redirect name date\<close> is the 302 to
  \<^verbatim>\<open>/confirm.html?name=...&date=...\<close>; the two 404 responses differ in their text
  (a missing file and an unknown route).
\<close>

datatype response =
  BadRequest
| Redirect qsval string
| NoContent
| Ok string
| ViewsJson "string \<rightharpoonup> view"
| FileNotFound
| PageNotFound

fun statusCode :: "response \<Rightarrow> nat" where
  "statusCode BadRequest = 400"
| "statusCode (Redirect n d) = 302"
| "statusCode NoContent = 204"
| "statusCode (Ok data) = 200"
| "statusCode (ViewsJson db) = 200"
| "statusCode FileNotFound = 404"
| "statusCode PageNotFound = 404"

datatype error = RangeError | TypeError

datatype outcome = Responded response | Threw error


section \<open>The registration handler\<close>

text \<open>
  \<^verbatim>\<open>appendToAirtable\<close>: nothing is called when Airtable is not configured; a failure of
  the call is logged and swallowed.
\<close>

definition appendToAirtable :: "env \<Rightarrow> registration \<Rightarrow> world \<Rightarrow> world" where
  "appendToAirtable e row w =
     (if \<not> airtableBase e then w else w\<lparr>effects := effects w @ [AirtableCreate row]\<rparr>)"

definition operators :: qsval where
  "operators = QStr ''bruno.chazreaud@gmail.com, laurmerel@gmail.com''"

text \<open>
  The callback of \<^verbatim>\<open>req.on('end', ...)\<close> for \<^verbatim>\<open>POST /register\<close> (lines 268 to 400).
  \<^verbatim>\<open>eventDate.toISOString()\<close> throws a \<^verbatim>\<open>RangeError\<close> on an Invalid Date; it is first
  evaluated as argument of \<^verbatim>\<open>registrations.push\<close>, after the file has been read and
  before anything is written.  The offsets are in milliseconds; the half hour,
  \<^verbatim>\<open>-0.5 * 60 * 60 * 1000\<close> in the source, is written as 30 minutes.
\<close>

definition registerHandler :: "env \<Rightarrow> request \<Rightarrow> world \<Rightarrow> outcome \<times> world" where
  "registerHandler e req w =
     (let data = formBody req;
          fName = orEmpty (data ''firstName'');
          lName = orEmpty (data ''lastName'');
          addr = orEmpty (data ''email'');
          sess = orEmpty (data ''session'');
          consent = data ''consent''
      in if \<not> truthy (Some fName) \<or> \<not> truthy (Some addr) \<or> \<not> truthy (Some sess)
            \<or> \<not> truthy consent
         then (Responded BadRequest, w)
         else
          (let eventDate = newDate (dateParse e (toString sess));
               registrations = (case regFile w of None \<Rightarrow> [] | Some rs \<Rightarrow> rs)
           in case eventDate of
                None \<Rightarrow> (Threw RangeError, w)
              | Some t \<Rightarrow>
                 (let iso = toISOString e t;
                      row = \<lparr>firstName = fName, lastName = lName, email = addr, session = iso\<rparr>;
                      w1 = w\<lparr>regFile := Some (registrations @ [row])\<rparr>;
                      w2 = appendToAirtable e row w1
                  in if \<not> baseUrlValid req then (Threw TypeError, w2)
                     else
                      (let w3 = sendEmail addr Confirmation w2;
                           w4 = scheduleEmail (now e 0) eventDate (- 24 * 60 * 60 * 1000) addr DayBefore w3;
                           w5 = scheduleEmail (now e 1) eventDate (- 5 * 60 * 60 * 1000) addr FiveHours w4;
                           w6 = scheduleEmail (now e 2) eventDate (- 1 * 60 * 60 * 1000) addr OneHour w5;
                           w7 = scheduleEmail (now e 3) eventDate (- 30 * 60 * 1000) addr HalfHour w6;
                           w8 = scheduleEmail (now e 4) eventDate (1 * 60 * 60 * 1000) addr AfterSession w7;
                           w9 = sendEmail operators AdminNotice w8
                       in (Responded (Redirect fName iso), w9)))))"


section \<open>Static files\<close>

text \<open>Splitting a path at \<^verbatim>\<open>/\<close>.\<close>

fun splitSlash :: "string \<Rightarrow> string list" where
  "splitSlash [] = [[]]"
| "splitSlash (c # cs) =
     (if c = CHR ''/'' then [] # splitSlash cs
      else (case splitSlash cs of [] \<Rightarrow> [[c]] | s # ss \<Rightarrow> (c # s) # ss))"

text \<open>
  \<^verbatim>\<open>path.join\<close> normalises the joined path (POSIX): empty and \<^verbatim>\<open>.\<close> segments are
  dropped, \<^verbatim>\<open>..\<close> removes the segment before it, and does nothing at the root of an
  absolute path.
\<close>

fun normalizeSegs :: "string list \<Rightarrow> string list \<Rightarrow> string list" where
  "normalizeSegs res [] = res"
| "normalizeSegs res (s # ss) =
     (if s = [] \<or> s = ''.'' then normalizeSegs res ss
      else if s = ''..'' then normalizeSegs (butlast res) ss
      else normalizeSegs (res @ [s]) ss)"

definition pathJoin :: "string list \<Rightarrow> string \<Rightarrow> string \<Rightarrow> string list" where
  "pathJoin dir sub filePath = normalizeSegs [] (dir @ [sub] @ splitSlash filePath)"

definition endsWithSlash :: "string \<Rightarrow> bool" where
  "endsWithSlash p = (p \<noteq> [] \<and> last p = CHR ''/'')"

text \<open>
  \<^verbatim>\<open>serveStatic(filePath, res)\<close>.  \<^verbatim>\<open>fs.readFile\<close> fails when nothing is at the path,
  and when the path ends with a slash (\<^verbatim>\<open>path.join\<close> keeps it: the path then names a
  directory or nothing); \<open>disk\<close> holds the regular files.  The Content-Type header is
  left out, and so are path names with a NUL character.
\<close>

definition serveStatic :: "env \<Rightarrow> string \<Rightarrow> world \<Rightarrow> outcome \<times> world" where
  "serveStatic e filePath w =
     (let fullPath = pathJoin (dirname e) ''public'' filePath
      in if endsWithSlash filePath then (Responded FileNotFound, w)
         else (case disk w fullPath of
                 None \<Rightarrow> (Responded FileNotFound, w)
               | Some data \<Rightarrow> (Responded (Ok data), w)))"

text \<open>The normalisation of the path name in the GET branch (lines 436 to 443).\<close>

definition toFilePath :: "string \<Rightarrow> string" where
  "toFilePath p =
     (if p = ''/'' \<or> p = [] then ''index.html''
      else if hd p = CHR ''/'' then tl p
      else p)"


section \<open>The tracking code\<close>

text \<open>
  \<^verbatim>\<open>readViews\<close> returns the parsed file, and the empty object when reading or parsing
  throws; \<^verbatim>\<open>writeViews\<close> replaces the file.  Both are called only from the tracking code
  below.
\<close>

definition readViews :: "world \<Rightarrow> (string \<rightharpoonup> view)" where
  "readViews w = (case viewsFile w of None \<Rightarrow> Map.empty | Some db \<Rightarrow> db)"

definition writeViews :: "(string \<rightharpoonup> view) \<Rightarrow> world \<Rightarrow> world" where
  "writeViews obj w = w\<lparr>viewsFile := Some obj\<rparr>"

text \<open>\<^verbatim>\<open>x | 0\<close>: conversion to a signed 32-bit integer, \<^verbatim>\<open>NaN\<close> to 0.\<close>

definition toInt32 :: "num \<Rightarrow> int" where
  "toInt32 v = (case v of None \<Rightarrow> 0 | Some n \<Rightarrow> (n + 2 ^ 31) mod 2 ^ 32 - 2 ^ 31)"

text \<open>
  \<^verbatim>\<open>String.prototype.trim\<close>.  A \<open>char\<close> is a code unit below 256; the white space and
  line terminators of JavaScript in that range are U+0009 to U+000D, U+0020 and the
  no-break space U+00A0 (the others, such as U+FEFF and U+2028, lie above it).
\<close>

definition isSpace :: "char \<Rightarrow> bool" where
  "isSpace c =
     (c \<in> set [CHR 0x09, CHR 0x0A, CHR 0x0B, CHR 0x0C, CHR 0x0D, CHR 0x20, CHR 0xA0])"

definition trim :: "string \<Rightarrow> string" where
  "trim s = rev (dropWhile isSpace (rev (dropWhile isSpace s)))"

text \<open>
  The members every object inherits from \<^verbatim>\<open>Object.prototype\<close>.  \<^verbatim>\<open>db[token]\<close> with such
  a token, on an object that has no entry of that name, reads the inherited member (a
  function, or the prototype itself for \<^verbatim>\<open>__proto__\<close>), which is truthy.
\<close>

definition objectPrototypeNames :: "string list" where
  "objectPrototypeNames =
     [''constructor'', ''__defineGetter__'', ''__defineSetter__'', ''hasOwnProperty'',
      ''__lookupGetter__'', ''__lookupSetter__'', ''isPrototypeOf'', ''propertyIsEnumerable'',
      ''toString'', ''valueOf'', ''__proto__'', ''toLocaleString'']"

text \<open>
  Lines 404 to 431 of \<^verbatim>\<open>server.js\<close>: the two tracking endpoints and the admin view.
  The result is \<open>None\<close> when neither \<^verbatim>\<open>if\<close> matches and control goes on.

  When \<^verbatim>\<open>db[token]\<close> is an inherited member, \<^verbatim>\<open>watched\<close>, \<^verbatim>\<open>completed\<close> and \<^verbatim>\<open>lastPing\<close>
  are set on that member, which is not part of the state; \<^verbatim>\<open>db[token] = cur\<close> then stores
  a function, which \<^verbatim>\<open>JSON.stringify\<close> leaves out, or sets the prototype to what it
  already is: the file is rewritten with the entries it had.

  The views file, where it parses, is taken to hold an object whose entries have the
  three fields with a number, a boolean and a string or \<^verbatim>\<open>null\<close>, as this code writes
  them; a file that parses to another JSON value is not represented.
\<close>

definition trackingBlock :: "env \<Rightarrow> request \<Rightarrow> world \<Rightarrow> (outcome \<times> world) option" where
  "trackingBlock e req w =
     (if reqMethod req = POST \<and> (pathname req = ''/track'' \<or> pathname req = ''/track-complete'')
      then
        (let body = jsonBody req;
             token = trim (tokenString body);
             db = readViews w;
             inherited = (db token = None \<and> token \<in> set objectPrototypeNames);
             cur = (case db token of
                      None \<Rightarrow> \<lparr>watched = 0, completed = False, lastPing = None\<rparr>
                    | Some v \<Rightarrow> v)
         in if pathname req = ''/track'' then
              (let seconds = toInt32 (watchedNumber body)
               in if token \<noteq> [] then
                    (if inherited then Some (Responded NoContent, writeViews db w)
                     else
                      (let cur' = cur\<lparr>watched := max (watched cur) seconds,
                                      lastPing := Some (toISOString e (now e 0))\<rparr>
                       in Some (Responded NoContent, writeViews (db(token \<mapsto> cur')) w)))
                  else Some (Responded NoContent, w))
            else
              (if token \<noteq> [] then
                 (if inherited then Some (Responded NoContent, writeViews db w)
                  else
                   (let cur' = cur\<lparr>completed := True,
                                   lastPing := Some (toISOString e (now e 0))\<rparr>
                    in Some (Responded NoContent, writeViews (db(token \<mapsto> cur')) w)))
               else Some (Responded NoContent, w)))
      else if reqMethod req = GET \<and> pathname req = ''/admin/views''
      then Some (Responded (ViewsJson (readViews w)), w)
      else None)"


section \<open>The request handler\<close>

text \<open>
  The handler passed to \<^verbatim>\<open>http.createServer\<close> (lines 258 to 450).  The branch for
  \<^verbatim>\<open>POST /register\<close> opens at line 263 and closes at line 432; it installs the body
  callbacks and ends with \<^verbatim>\<open>return\<close> at line 401.  The tracking code of lines 404 to
  431 stands inside this branch after that \<^verbatim>\<open>return\<close>, so no request reaches it:
  \<open>trackingBlock\<close> does not occur in \<open>server\<close>.  Every request other than
  \<^verbatim>\<open>POST /register\<close> continues at line 434.
\<close>

definition server :: "env \<Rightarrow> request \<Rightarrow> world \<Rightarrow> outcome \<times> world" where
  "server e req w =
     (if reqMethod req = POST \<and> pathname req = ''/register'' then registerHandler e req w
      else if reqMethod req = GET then serveStatic e (toFilePath (pathname req)) w
      else (Responded PageNotFound, w))"


section \<open>The time slots of the calendar\<close>

text \<open>
  \<^verbatim>\<open>getTimesForDate(d)\<close> of \<^verbatim>\<open>public/script.js\<close> reads four getters of the (valid)
  \<^verbatim>\<open>Date\<close> it is given, in local time: the year, the month (0 to 11), the day of the
  month and the day of the week (0 is Sunday, 6 is Saturday).
\<close>

record jsDate =
  getFullYear :: int
  getMonth :: int
  getDate :: int
  getDay :: int

definition getTimesForDate :: "jsDate \<Rightarrow> string list" where
  "getTimesForDate d =
     (let dow = getDay d
      in if getFullYear d = 2025 \<and> getMonth d = 7 \<and> getDate d = 23 \<and> dow = 6
         then [''09:30'', ''14:00'', ''16:00'', ''18:30'', ''20:30'', ''22:00'']
         else if dow \<ge> 1 \<and> dow \<le> 4 then [''15:00'', ''18:30'', ''20:30'']
         else if dow = 5 then [''09:30'', ''15:00'', ''19:30'']
         else if dow = 6 then [''09:30'', ''14:00'', ''16:00'', ''18:30'', ''20:30'']
         else [''09:30'', ''10:30'', ''11:10'', ''11:30'', ''12:30'', ''14:00'', ''15:00'',
               ''17:09'', ''18:30'', ''20:30''])"

section \<open>Notions used to state the properties\<close>

text \<open>The validation of line 275 passes: the four required fields are truthy.\<close>

definition validForm :: "form \<Rightarrow> bool" where
  "validForm data =
     (truthy (data ''firstName'') \<and> truthy (data ''email'') \<and> truthy (data ''session'')
      \<and> truthy (data ''consent''))"

text \<open>\<^verbatim>\<open>new Date(session)\<close> for the submitted session.\<close>

definition eventDateOf :: "env \<Rightarrow> request \<Rightarrow> date" where
  "eventDateOf e req = newDate (dateParse e (toString (orEmpty (formBody req ''session''))))"

text \<open>The record stored for a request whose session is the time \<open>t\<close>.\<close>

definition registrationOf :: "env \<Rightarrow> request \<Rightarrow> int \<Rightarrow> registration" where
  "registrationOf e req t =
     \<lparr>firstName = orEmpty (formBody req ''firstName''),
      lastName = orEmpty (formBody req ''lastName''),
      email = orEmpty (formBody req ''email''),
      session = toISOString e t\<rparr>"

text \<open>The \<^verbatim>\<open>sendTime\<close> and the \<^verbatim>\<open>delay\<close> that \<^verbatim>\<open>scheduleEmail\<close> computes.\<close>

definition sendTimeOf :: "date \<Rightarrow> int \<Rightarrow> date" where
  "sendTimeOf eventDate offsetMs = newDate (addNum (getTime eventDate) (Some offsetMs))"

definition delayOf :: "int \<Rightarrow> date \<Rightarrow> int \<Rightarrow> num" where
  "delayOf dateNow eventDate offsetMs =
     subNum (getTime (sendTimeOf eventDate offsetMs)) (Some dateNow)"

text \<open>
  What one reminder job does when it is created: the message is sent at once, or a
  timer is armed for it.
\<close>

definition reminderJob :: "int \<Rightarrow> date \<Rightarrow> int \<Rightarrow> qsval \<Rightarrow> template \<Rightarrow> action" where
  "reminderJob dateNow eventDate offsetMs rcpt c =
     (if leNum (getTime (sendTimeOf eventDate offsetMs)) (Some dateNow)
      then SendMail \<lparr>to = rcpt, content = c\<rparr>
      else SetTimeout (delayOf dateNow eventDate offsetMs) \<lparr>to = rcpt, content = c\<rparr>)"

text \<open>The entries of the registration store as the handler reads them.\<close>

definition readRegistrations :: "world \<Rightarrow> registration list" where
  "readRegistrations w = (case regFile w of None \<Rightarrow> [] | Some rs \<Rightarrow> rs)"


text \<open>The message an action carries.\<close>

fun mailOf :: "action \<Rightarrow> mail option" where
  "mailOf (SendMail m) = Some m"
| "mailOf (SetTimeout delay m) = Some m"
| "mailOf (AirtableCreate r) = None"

text \<open>
  A sample environment, request and state.  The session is Saturday 23 August 2025 at
  20:00 UTC (1755979200000 ms); the clock stands about eleven days before it.
\<close>

definition sampleEnv :: env where
  "sampleEnv =
     \<lparr>dateParse = (\<lambda>s. if s = ''2025-08-23T20:00:00.000Z'' then Some 1755979200000 else None),
      toISOString = (\<lambda>t. if t = 1755979200000 then ''2025-08-23T20:00:00.000Z'' else ''other''),
      airtableBase = False,
      dirname = [''srv'', ''app''],
      now = (\<lambda>k. 1755000000000 + int k)\<rparr>"

definition sampleForm :: form where
  "sampleForm =
     [''firstName'' \<mapsto> QStr ''Anne'', ''lastName'' \<mapsto> QStr ''Martin'',
      ''email'' \<mapsto> QStr ''anne@example.org'',
      ''session'' \<mapsto> QStr ''2025-08-23T20:00:00.000Z'', ''consent'' \<mapsto> QStr ''on'']"

definition sampleRequest :: request where
  "sampleRequest =
     \<lparr>reqMethod = POST, pathname = ''/register'', formBody = sampleForm,
      jsonBody = \<lparr>tokenString = [], watchedNumber = None\<rparr>, baseUrlValid = True\<rparr>"

definition sampleWorld :: world where
  "sampleWorld =
     \<lparr>regFile = Some [], viewsFile = None,
      disk = [[''srv'', ''app'', ''server.js''] \<mapsto> ''const http'',
              [''srv'', ''app'', ''public'', ''index.html''] \<mapsto> ''<html>''],
      effects = []\<rparr>"


text \<open>A tracking request and a request for a file above the asset root.\<close>

definition sampleTrack :: request where
  "sampleTrack =
     \<lparr>reqMethod = POST, pathname = ''/track'', formBody = Map.empty,
      jsonBody = \<lparr>tokenString = ''abc'', watchedNumber = Some 120\<rparr>, baseUrlValid = True\<rparr>"

definition sampleTraversal :: request where
  "sampleTraversal =
     \<lparr>reqMethod = GET, pathname = ''/../server.js'', formBody = Map.empty,
      jsonBody = \<lparr>tokenString = [], watchedNumber = None\<rparr>, baseUrlValid = True\<rparr>"

text \<open>The slot tables of \<^verbatim>\<open>getTimesForDate\<close>.\<close>

definition saturdaySlots :: "string list" where
  "saturdaySlots = [''09:30'', ''14:00'', ''16:00'', ''18:30'', ''20:30'']"

definition overrideSlots :: "string list" where
  "overrideSlots = saturdaySlots @ [''22:00'']"


section \<open>Basic facts\<close>

lemma truthy_orEmpty [simp]: "truthy (Some (orEmpty v)) = truthy v"
  by (cases v) (auto simp: orEmpty_def)

lemma leNum_delay:
  "leNum (subNum a (Some n)) (Some 0) = leNum a (Some n)"
  by (cases a) (simp_all add: leNum_def subNum_def)

lemma scheduleEmail_effect:
  "scheduleEmail dateNow eventDate offsetMs rcpt c w =
     w\<lparr>effects := effects w @ [reminderJob dateNow eventDate offsetMs rcpt c]\<rparr>"
  by (simp add: scheduleEmail_def reminderJob_def sendTimeOf_def delayOf_def Let_def
      leNum_delay sendEmail_def setTimeout_def)

lemma sendTimeOf_in_range:
  "\<bar>t + offsetMs\<bar> \<le> maxTime \<Longrightarrow> sendTimeOf (Some t) offsetMs = Some (t + offsetMs)"
  by (simp add: sendTimeOf_def newDate_def addNum_def getTime_def)

lemma server_register:
  "reqMethod req = POST \<Longrightarrow> pathname req = ''/register'' \<Longrightarrow>
   server e req w = registerHandler e req w"
  by (simp add: server_def)


section \<open>The reminder scheduler\<close>

text \<open>
  In terms of the code's own \<^verbatim>\<open>sendTime\<close> and of the comparison of JavaScript: when
  the send time is not after the current time, the message is sent at once.
\<close>

lemma scheduleEmail_sendTime_passed:
  assumes "leNum (getTime (sendTimeOf eventDate offsetMs)) (Some dateNow)"
  shows "scheduleEmail dateNow eventDate offsetMs rcpt c w = sendEmail rcpt c w"
  using assms
  by (simp add: scheduleEmail_def sendTimeOf_def Let_def leNum_delay)

text \<open>
  A sum of event time and offset that a \<^verbatim>\<open>Date\<close> cannot hold gives an Invalid Date,
  whose delay is \<^verbatim>\<open>NaN\<close>: the test \<^verbatim>\<open>delay <= 0\<close> fails and a timer is armed with that
  delay, whatever the current time.
\<close>

lemma scheduleEmail_out_of_range:
  assumes "maxTime < \<bar>t + offsetMs\<bar>"
  shows "scheduleEmail dateNow (Some t) offsetMs rcpt c w
           = setTimeout \<lparr>to = rcpt, content = c\<rparr> None w"
  using assms
  by (simp add: scheduleEmail_def Let_def newDate_def addNum_def subNum_def leNum_def
      getTime_def)

text \<open>
  C1, as stated, fails.  The earliest time a \<^verbatim>\<open>Date\<close> can hold, -8640000000000000
  (the session \<^verbatim>\<open>-271821-04-20T00:00:00.000Z\<close>), is a valid event time; with the offset
  of 24 hours before it, event time plus offset is far before the current time, yet
  nothing is sent synchronously: the send time is an Invalid Date and
  \<^verbatim>\<open>setTimeout(schedule, NaN)\<close> is called.
\<close>

theorem scheduleEmail_past_not_sent_counterexample:
  "newDate (Some (- 8640000000000000)) = Some (- 8640000000000000)
   \<and> (- 8640000000000000) + (- 24 * 60 * 60 * 1000) \<le> (1755000000000 :: int)
   \<and> scheduleEmail 1755000000000 (Some (- 8640000000000000)) (- 24 * 60 * 60 * 1000)
         (QStr ''anne@example.org'') DayBefore sampleWorld
       = setTimeout \<lparr>to = QStr ''anne@example.org'', content = DayBefore\<rparr> None sampleWorld
   \<and> scheduleEmail 1755000000000 (Some (- 8640000000000000)) (- 24 * 60 * 60 * 1000)
         (QStr ''anne@example.org'') DayBefore sampleWorld
       \<noteq> sendEmail (QStr ''anne@example.org'') DayBefore sampleWorld
   \<and> effects (scheduleEmail 1755000000000 (Some (- 8640000000000000)) (- 24 * 60 * 60 * 1000)
         (QStr ''anne@example.org'') DayBefore sampleWorld)
       = [SetTimeout None \<lparr>to = QStr ''anne@example.org'', content = DayBefore\<rparr>]"
  by (simp add: scheduleEmail_def Let_def newDate_def addNum_def subNum_def leNum_def
      getTime_def maxTime_def setTimeout_def sendEmail_def sampleWorld_def)

text \<open>
  C1, amended.  A call of \<^verbatim>\<open>scheduleEmail\<close> with a valid event time \<open>t\<close>, such that
  \<open>t\<close> plus the offset is a time a \<^verbatim>\<open>Date\<close> can hold (at most 8640000000000000 in
  absolute value) and is not after the current time, sends the message at once:
  \<^verbatim>\<open>sendEmail\<close> is called synchronously, exactly one message is handed over and no
  timer is armed.
\<close>

theorem scheduleEmail_past_numbers:
  assumes "\<bar>t + offsetMs\<bar> \<le> maxTime" and "t + offsetMs \<le> dateNow"
  shows "scheduleEmail dateNow (Some t) offsetMs rcpt c w = sendEmail rcpt c w
         \<and> effects (scheduleEmail dateNow (Some t) offsetMs rcpt c w)
             = effects w @ [SendMail \<lparr>to = rcpt, content = c\<rparr>]
         \<and> (\<forall>delay m. SetTimeout delay m
               \<notin> set (drop (length (effects w))
                          (effects (scheduleEmail dateNow (Some t) offsetMs rcpt c w))))"
proof -
  have "scheduleEmail dateNow (Some t) offsetMs rcpt c w = sendEmail rcpt c w"
    using assms
    by (simp add: scheduleEmail_def Let_def newDate_def addNum_def subNum_def leNum_def
        getTime_def)
  then show ?thesis by (simp add: sendEmail_def)
qed

theorem scheduleEmail_past_numbers_witness:
  "\<bar>1755979200000 + (- 24 * 60 * 60 * 1000)\<bar> \<le> maxTime
   \<and> 1755979200000 + (- 24 * 60 * 60 * 1000) \<le> (1755950000000 :: int)
   \<and> effects (scheduleEmail 1755950000000 (Some 1755979200000) (- 24 * 60 * 60 * 1000)
         (QStr ''anne@example.org'') DayBefore sampleWorld)
       = [SendMail \<lparr>to = QStr ''anne@example.org'', content = DayBefore\<rparr>]"
proof -
  have r: "\<bar>1755979200000 + (- 24 * 60 * 60 * 1000)\<bar> \<le> maxTime"
    by (simp add: maxTime_def)
  have p: "1755979200000 + (- 24 * 60 * 60 * 1000) \<le> (1755950000000 :: int)"
    by simp
  have e0: "effects sampleWorld = []"
    by (simp add: sampleWorld_def)
  from scheduleEmail_past_numbers [OF r p, of "QStr ''anne@example.org''" DayBefore sampleWorld]
  show ?thesis using r p by (simp add: e0 sendEmail_def)
qed

text \<open>
  A send time after the current time arms one timer whose delay argument is the send
  time minus the current time, and sends nothing at once.  The timer runs no earlier
  than the send time when that delay is at most \<open>TIMEOUT_MAX\<close>.
\<close>

lemma scheduleEmail_future_arms_timer:
  assumes "sendTimeOf eventDate offsetMs = Some s" and "dateNow < s"
  shows "scheduleEmail dateNow eventDate offsetMs rcpt c w
           = setTimeout \<lparr>to = rcpt, content = c\<rparr> (Some (s - dateNow)) w"
    and "s - dateNow \<le> TIMEOUT_MAX \<Longrightarrow>
         firesAt dateNow (SetTimeout (Some (s - dateNow)) \<lparr>to = rcpt, content = c\<rparr>) = Some s"
  using assms
  by (simp_all add: scheduleEmail_def sendTimeOf_def Let_def leNum_def subNum_def getTime_def
      firesAt_def timerDelay_def)

text \<open>
  C2.  The claim is that, for a send time after the current time, the armed timer makes
  the notification fire no earlier than event time plus offset.  A session 30 days
  after the current time 1755000000000 (12 August 2025, 12:00 UTC), with the offset of
  one hour before it: the timer is armed with the delay 2588400000 ms, which is the
  send time minus the current time but above \<open>TIMEOUT_MAX\<close>, so the runtime runs it
  after 1 ms, long before the send time.
\<close>

theorem scheduleEmail_far_future_fires_early:
  "scheduleEmail 1755000000000 (Some 1757592000000) (- 1 * 60 * 60 * 1000) rcpt c w
     = setTimeout \<lparr>to = rcpt, content = c\<rparr> (Some 2588400000) w
   \<and> TIMEOUT_MAX < 2588400000
   \<and> firesAt 1755000000000 (SetTimeout (Some 2588400000) \<lparr>to = rcpt, content = c\<rparr>)
       = Some 1755000000001
   \<and> (1755000000001 :: int) < 1757592000000 + (- 1 * 60 * 60 * 1000)"
  by (simp add: scheduleEmail_def Let_def newDate_def addNum_def subNum_def leNum_def
      getTime_def maxTime_def firesAt_def timerDelay_def TIMEOUT_MAX_def)


section \<open>Registration\<close>

text \<open>
  C3.  A \<^verbatim>\<open>POST /register\<close> in which one of \<^verbatim>\<open>firstName\<close>, \<^verbatim>\<open>email\<close>, \<^verbatim>\<open>session\<close>,
  \<^verbatim>\<open>consent\<close> is missing or empty is answered with status 400, and the state is the
  one before the request: the registration store is unchanged and no mail, timer or
  ledger call is added.
\<close>

theorem register_missing_field_rejected:
  assumes "reqMethod req = POST" and "pathname req = ''/register''"
    and "k \<in> {''firstName'', ''email'', ''session'', ''consent''}"
    and "\<not> truthy (formBody req k)"
  shows "server e req w = (Responded BadRequest, w) \<and> statusCode BadRequest = 400"
  using assms by (auto simp: server_def registerHandler_def Let_def)

theorem register_missing_field_rejected_witness:
  "reqMethod (sampleRequest\<lparr>formBody := sampleForm(''session'' := None)\<rparr>) = POST
   \<and> pathname (sampleRequest\<lparr>formBody := sampleForm(''session'' := None)\<rparr>) = ''/register''
   \<and> ''session'' \<in> {''firstName'', ''email'', ''session'', ''consent''}
   \<and> \<not> truthy (formBody (sampleRequest\<lparr>formBody := sampleForm(''session'' := None)\<rparr>) ''session'')
   \<and> server sampleEnv (sampleRequest\<lparr>formBody := sampleForm(''session'' := None)\<rparr>) sampleWorld
       = (Responded BadRequest, sampleWorld)"
proof -
  let ?req = "sampleRequest\<lparr>formBody := sampleForm(''session'' := None)\<rparr>"
  have m: "reqMethod ?req = POST" and p: "pathname ?req = ''/register''"
    by (simp_all add: sampleRequest_def)
  have k: "''session'' \<in> {''firstName'', ''email'', ''session'', ''consent''}" by simp
  have f: "\<not> truthy (formBody ?req ''session'')" by simp
  from register_missing_field_rejected [OF m p k f, of sampleEnv sampleWorld]
  show ?thesis using m p f by simp
qed

text \<open>
  C4.  A \<^verbatim>\<open>POST /register\<close> that passes the validation and whose session is a
  timestamp (\<^verbatim>\<open>new Date(session)\<close> is a valid date \<open>t\<close>) leaves the registration store
  with the entries read before, in their order, followed by one new entry: the length
  grows by one, and the session of the new entry is \<^verbatim>\<open>toISOString()\<close> of \<open>t\<close>.
\<close>

theorem register_appends_registration:
  assumes "reqMethod req = POST" and "pathname req = ''/register''"
    and "validForm (formBody req)" and "eventDateOf e req = Some t"
  shows "regFile (snd (server e req w)) = Some (readRegistrations w @ [registrationOf e req t])
         \<and> length (readRegistrations (snd (server e req w))) = length (readRegistrations w) + 1
         \<and> take (length (readRegistrations w)) (readRegistrations (snd (server e req w)))
             = readRegistrations w
         \<and> session (last (readRegistrations (snd (server e req w)))) = toISOString e t"
proof -
  have "regFile (snd (server e req w)) = Some (readRegistrations w @ [registrationOf e req t])"
    using assms
    by (simp add: server_def registerHandler_def validForm_def eventDateOf_def Let_def
        readRegistrations_def registrationOf_def scheduleEmail_effect sendEmail_def
        appendToAirtable_def)
  then show ?thesis
    by (simp add: readRegistrations_def registrationOf_def)
qed

lemma sample_valid: "validForm (formBody sampleRequest)"
  by (simp add: validForm_def sampleRequest_def sampleForm_def)

lemma sample_eventDate: "eventDateOf sampleEnv sampleRequest = Some 1755979200000"
  by (simp add: eventDateOf_def sampleRequest_def sampleForm_def sampleEnv_def orEmpty_def
      newDate_def maxTime_def)

lemma sample_route: "reqMethod sampleRequest = POST" "pathname sampleRequest = ''/register''"
  by (simp_all add: sampleRequest_def)

theorem register_appends_registration_witness:
  "reqMethod sampleRequest = POST \<and> pathname sampleRequest = ''/register''
   \<and> validForm (formBody sampleRequest)
   \<and> eventDateOf sampleEnv sampleRequest = Some 1755979200000
   \<and> regFile (snd (server sampleEnv sampleRequest sampleWorld))
       = Some [\<lparr>firstName = QStr ''Anne'', lastName = QStr ''Martin'',
                email = QStr ''anne@example.org'', session = ''2025-08-23T20:00:00.000Z''\<rparr>]"
proof -
  have r: "registrationOf sampleEnv sampleRequest 1755979200000
             = \<lparr>firstName = QStr ''Anne'', lastName = QStr ''Martin'',
                email = QStr ''anne@example.org'', session = ''2025-08-23T20:00:00.000Z''\<rparr>"
    by (simp add: registrationOf_def sampleRequest_def sampleForm_def sampleEnv_def orEmpty_def)
  have w: "readRegistrations sampleWorld = []"
    by (simp add: readRegistrations_def sampleWorld_def)
  from register_appends_registration [OF sample_route sample_valid sample_eventDate, of sampleWorld]
  show ?thesis using sample_route sample_valid sample_eventDate r w by simp
qed

text \<open>
  A \<^verbatim>\<open>POST /register\<close> that passes the validation, whose session is a timestamp
  and for which the join link can be built, is answered with the redirect, and adds to
  the actions, after the ledger call if Airtable is configured, exactly: the
  confirmation sent at once to the registrant, one reminder job for each of the offsets
  -24 h, -5 h, -1 h, -30 min and +1 h (in milliseconds) from the session, each carrying
  a message to the registrant, and the admin notice sent at once to the operators.
\<close>

lemma register_dispatches_notifications:
  assumes "reqMethod req = POST" and "pathname req = ''/register''"
    and "validForm (formBody req)" and "eventDateOf e req = Some t" and "baseUrlValid req"
    and "addr = orEmpty (formBody req ''email'')"
    and "jobs = [reminderJob (now e 0) (Some t) (- 86400000) addr DayBefore,
                 reminderJob (now e 1) (Some t) (- 18000000) addr FiveHours,
                 reminderJob (now e 2) (Some t) (- 3600000) addr OneHour,
                 reminderJob (now e 3) (Some t) (- 1800000) addr HalfHour,
                 reminderJob (now e 4) (Some t) 3600000 addr AfterSession]"
  shows "fst (server e req w)
           = Responded (Redirect (orEmpty (formBody req ''firstName'')) (toISOString e t))
         \<and> effects (snd (server e req w))
             = effects w
               @ (if airtableBase e then [AirtableCreate (registrationOf e req t)] else [])
               @ [SendMail \<lparr>to = addr, content = Confirmation\<rparr>]
               @ jobs
               @ [SendMail \<lparr>to = operators, content = AdminNotice\<rparr>]
         \<and> length jobs = 5
         \<and> map mailOf jobs
             = map (\<lambda>c. Some \<lparr>to = addr, content = c\<rparr>)
                 [DayBefore, FiveHours, OneHour, HalfHour, AfterSession]"
proof -
  have h: "server e req w = registerHandler e req w"
    using assms(1,2) by (rule server_register)
  have v: "truthy (formBody req ''firstName'')" "truthy (formBody req ''email'')"
    "truthy (formBody req ''session'')" "truthy (formBody req ''consent'')"
    using assms(3) by (simp_all add: validForm_def)
  have d: "newDate (dateParse e (toString (orEmpty (formBody req ''session'')))) = Some t"
    using assms(4) by (simp add: eventDateOf_def)
  have m: "mailOf (reminderJob n ev off addr c) = Some \<lparr>to = addr, content = c\<rparr>" for n ev off c
    by (simp add: reminderJob_def)
  have "fst (registerHandler e req w)
          = Responded (Redirect (orEmpty (formBody req ''firstName'')) (toISOString e t))"
    using v d assms(5) by (simp add: registerHandler_def Let_def)
  moreover have "effects (snd (registerHandler e req w))
             = effects w
               @ (if airtableBase e then [AirtableCreate (registrationOf e req t)] else [])
               @ [SendMail \<lparr>to = addr, content = Confirmation\<rparr>]
               @ jobs
               @ [SendMail \<lparr>to = operators, content = AdminNotice\<rparr>]"
    using v d assms(5)
    by (simp add: registerHandler_def Let_def assms(6,7) scheduleEmail_effect sendEmail_def
        appendToAirtable_def registrationOf_def)
  moreover have "length jobs = 5" by (simp add: assms(7))
  moreover have "map mailOf jobs
             = map (\<lambda>c. Some \<lparr>to = addr, content = c\<rparr>)
                 [DayBefore, FiveHours, OneHour, HalfHour, AfterSession]"
    by (simp add: assms(7) m)
  ultimately show ?thesis by (simp add: h)
qed

lemma register_dispatches_notifications_sample:
  "reqMethod sampleRequest = POST \<and> pathname sampleRequest = ''/register''
   \<and> validForm (formBody sampleRequest)
   \<and> eventDateOf sampleEnv sampleRequest = Some 1755979200000
   \<and> baseUrlValid sampleRequest
   \<and> effects (snd (server sampleEnv sampleRequest sampleWorld))
       = [SendMail \<lparr>to = QStr ''anne@example.org'', content = Confirmation\<rparr>,
          SetTimeout (Some 892800000) \<lparr>to = QStr ''anne@example.org'', content = DayBefore\<rparr>,
          SetTimeout (Some 961199999) \<lparr>to = QStr ''anne@example.org'', content = FiveHours\<rparr>,
          SetTimeout (Some 975599998) \<lparr>to = QStr ''anne@example.org'', content = OneHour\<rparr>,
          SetTimeout (Some 977399997) \<lparr>to = QStr ''anne@example.org'', content = HalfHour\<rparr>,
          SetTimeout (Some 982799996) \<lparr>to = QStr ''anne@example.org'', content = AfterSession\<rparr>,
          SendMail \<lparr>to = operators, content = AdminNotice\<rparr>]"
proof -
  have b: "baseUrlValid sampleRequest" by (simp add: sampleRequest_def)
  have a: "orEmpty (formBody sampleRequest ''email'') = QStr ''anne@example.org''"
    by (simp add: sampleRequest_def sampleForm_def orEmpty_def)
  from register_dispatches_notifications
    [OF sample_route sample_valid sample_eventDate b a [symmetric] refl, of sampleWorld]
  show ?thesis
    using sample_route sample_valid sample_eventDate b
    by (simp add: reminderJob_def delayOf_def sendTimeOf_def newDate_def addNum_def subNum_def
        leNum_def getTime_def maxTime_def sampleEnv_def sampleWorld_def)
qed

text \<open>
  C5.  The claim is that every valid registration gets the confirmation, the five
  reminder jobs and the admin notice.  The sample registration is valid and its session
  is a timestamp, but the base URL taken from the forwarded headers of the request is
  one that \<^verbatim>\<open>new URL\<close> refuses (line 305, under the comment \<^verbatim>\<open>Build the URL safely\<close>):
  the handler throws after the registration has been written and before the first
  \<^verbatim>\<open>sendEmail\<close>, so the registration is stored and no message is sent and no timer armed.
\<close>

theorem register_stored_without_notifications:
  "reqMethod (sampleRequest\<lparr>baseUrlValid := False\<rparr>) = POST
   \<and> pathname (sampleRequest\<lparr>baseUrlValid := False\<rparr>) = ''/register''
   \<and> validForm (formBody (sampleRequest\<lparr>baseUrlValid := False\<rparr>))
   \<and> eventDateOf sampleEnv (sampleRequest\<lparr>baseUrlValid := False\<rparr>) = Some 1755979200000
   \<and> fst (server sampleEnv (sampleRequest\<lparr>baseUrlValid := False\<rparr>) sampleWorld)
       = Threw TypeError
   \<and> regFile (snd (server sampleEnv (sampleRequest\<lparr>baseUrlValid := False\<rparr>) sampleWorld))
       = Some [\<lparr>firstName = QStr ''Anne'', lastName = QStr ''Martin'',
                email = QStr ''anne@example.org'', session = ''2025-08-23T20:00:00.000Z''\<rparr>]
   \<and> effects (snd (server sampleEnv (sampleRequest\<lparr>baseUrlValid := False\<rparr>) sampleWorld))
       = []"
proof -
  let ?req = "sampleRequest\<lparr>baseUrlValid := False\<rparr>"
  have m: "reqMethod ?req = POST" and p: "pathname ?req = ''/register''"
    by (simp_all add: sampleRequest_def)
  have v: "validForm (formBody ?req)"
    by (simp add: validForm_def sampleRequest_def sampleForm_def)
  have d: "eventDateOf sampleEnv ?req = Some 1755979200000"
    by (simp add: eventDateOf_def sampleRequest_def sampleForm_def sampleEnv_def orEmpty_def
        newDate_def maxTime_def)
  have r: "server sampleEnv ?req sampleWorld
             = (Threw TypeError,
                sampleWorld\<lparr>regFile := Some [\<lparr>firstName = QStr ''Anne'', lastName = QStr ''Martin'',
                  email = QStr ''anne@example.org'', session = ''2025-08-23T20:00:00.000Z''\<rparr>]\<rparr>)"
    by (simp add: server_def registerHandler_def Let_def sampleRequest_def sampleForm_def
        sampleEnv_def sampleWorld_def orEmpty_def newDate_def maxTime_def appendToAirtable_def)
  have e0: "effects sampleWorld = []"
    by (simp add: sampleWorld_def)
  show ?thesis using m p v d by (simp add: r e0)
qed

text \<open>
  C10.  The validation does not look at whether the session is a date: a
  \<^verbatim>\<open>POST /register\<close> whose four required fields are present, but whose session does not
  parse (\<^verbatim>\<open>new Date(session)\<close> is an Invalid Date), passes the validation, and the
  handler then throws the \<^verbatim>\<open>RangeError\<close> of \<^verbatim>\<open>toISOString\<close> instead of answering
  with the validation error, with nothing persisted and nothing sent.
\<close>

theorem register_unparseable_session_throws:
  assumes "reqMethod req = POST" and "pathname req = ''/register''"
    and "validForm (formBody req)" and "eventDateOf e req = None"
  shows "server e req w = (Threw RangeError, w)
         \<and> server e req w \<noteq> (Responded BadRequest, w)"
  using assms
  by (simp add: server_def registerHandler_def validForm_def eventDateOf_def Let_def)

theorem register_unparseable_session_throws_witness:
  "reqMethod (sampleRequest\<lparr>formBody := sampleForm(''session'' \<mapsto> QStr ''demain'')\<rparr>) = POST
   \<and> pathname (sampleRequest\<lparr>formBody := sampleForm(''session'' \<mapsto> QStr ''demain'')\<rparr>)
       = ''/register''
   \<and> validForm (formBody (sampleRequest\<lparr>formBody := sampleForm(''session'' \<mapsto> QStr ''demain'')\<rparr>))
   \<and> eventDateOf sampleEnv (sampleRequest\<lparr>formBody := sampleForm(''session'' \<mapsto> QStr ''demain'')\<rparr>)
       = None
   \<and> server sampleEnv (sampleRequest\<lparr>formBody := sampleForm(''session'' \<mapsto> QStr ''demain'')\<rparr>)
        sampleWorld = (Threw RangeError, sampleWorld)"
proof -
  let ?req = "sampleRequest\<lparr>formBody := sampleForm(''session'' \<mapsto> QStr ''demain'')\<rparr>"
  have m: "reqMethod ?req = POST" and p: "pathname ?req = ''/register''"
    by (simp_all add: sampleRequest_def)
  have v: "validForm (formBody ?req)"
    by (simp add: validForm_def sampleForm_def)
  have d: "eventDateOf sampleEnv ?req = None"
    by (simp add: eventDateOf_def sampleEnv_def orEmpty_def newDate_def)
  from register_unparseable_session_throws [OF m p v d, of sampleWorld]
  show ?thesis using m p v d by simp
qed

text \<open>
  When \<^verbatim>\<open>registrations.json\<close> cannot be read or parsed, a registration that passes the
  validation and whose session is a timestamp leaves the file rewritten with the new
  registration as its only entry.
\<close>

lemma register_unreadable_store_overwritten:
  assumes "reqMethod req = POST" and "pathname req = ''/register''"
    and "validForm (formBody req)" and "eventDateOf e req = Some t"
    and "regFile w = None"
  shows "regFile (snd (server e req w)) = Some [registrationOf e req t]"
  using assms
  by (simp add: server_def registerHandler_def validForm_def eventDateOf_def Let_def
      registrationOf_def scheduleEmail_effect sendEmail_def appendToAirtable_def)


section \<open>Tracking\<close>

text \<open>
  The tracking code, where it runs, keeps the larger of the stored and the submitted
  number of seconds (converted to a 32-bit integer) for a token that is not empty after
  trimming, and answers 204 without a body.
\<close>

lemma trackingBlock_keeps_maximum:
  assumes "reqMethod req = POST" and "pathname req = ''/track''"
    and "token = trim (tokenString (jsonBody req))" and "token \<noteq> []"
    and "viewsFile w = Some db" and "db token = Some v"
  shows "trackingBlock e req w
           = Some (Responded NoContent,
               w\<lparr>viewsFile := Some (db(token \<mapsto>
                    v\<lparr>watched := max (watched v) (toInt32 (watchedNumber (jsonBody req))),
                      lastPing := Some (toISOString e (now e 0))\<rparr>))\<rparr>)"
  using assms(1,2,4,5,6) assms(3) [symmetric]
  by (simp add: trackingBlock_def Let_def readViews_def writeViews_def)

text \<open>
  C6.  The claim is that a \<^verbatim>\<open>POST /track\<close> raises the stored number of seconds of
  its token to the maximum of the old and the submitted value and is answered without
  a body.  The request with token \<^verbatim>\<open>abc\<close> and 120 seconds does not reach the tracking
  code: in every environment and state the handler answers it with the 404 for an
  unknown route and leaves the state, the views file included, as it was.
\<close>

theorem track_request_answered_not_found:
  "server e sampleTrack w = (Responded PageNotFound, w)
   \<and> statusCode PageNotFound = 404
   \<and> viewsFile (snd (server e sampleTrack w)) = viewsFile w
   \<and> trackingBlock e sampleTrack w \<noteq> Some (server e sampleTrack w)"
  by (simp add: server_def sampleTrack_def trackingBlock_def Let_def trim_def isSpace_def
      objectPrototypeNames_def)


text \<open>
  C9.  The claim is that an unreadable tracking view store is read as empty and
  overwritten by the next write, as the registration store is.  With \<^verbatim>\<open>views.json\<close>
  unreadable, the tracking request with token \<^verbatim>\<open>abc\<close> and 120 seconds is answered with
  the 404 for an unknown route in every environment and state; the file is neither
  read nor written and is as unreadable after the request as before.
\<close>

theorem unreadable_views_store_left_unreadable:
  "server e sampleTrack (w\<lparr>viewsFile := None\<rparr>) = (Responded PageNotFound, w\<lparr>viewsFile := None\<rparr>)
   \<and> viewsFile (snd (server e sampleTrack (w\<lparr>viewsFile := None\<rparr>))) = None
   \<and> viewsFile (snd (server e sampleTrack (w\<lparr>viewsFile := None\<rparr>))) \<noteq> Some Map.empty
   \<and> (\<forall>entry. viewsFile (snd (server e sampleTrack (w\<lparr>viewsFile := None\<rparr>)))
                \<noteq> Some [''abc'' \<mapsto> entry])"
  by (simp add: server_def sampleTrack_def)

section \<open>Static files\<close>

text \<open>
  A path that names no regular file, after the join with the asset root, is answered
  with the 404 for a missing file.
\<close>

lemma serveStatic_missing_file:
  assumes "reqMethod req = GET"
    and "disk w (pathJoin (dirname e) ''public'' (toFilePath (pathname req))) = None"
  shows "server e req w = (Responded FileNotFound, w)"
  using assms by (simp add: server_def serveStatic_def Let_def)

text \<open>
  C7.  The claim is that the file served for a GET is resolved strictly within the
  asset root \<^verbatim>\<open>public\<close>.  The request \<^verbatim>\<open>GET /..%2fserver.js\<close> has the decoded path name
  \<^verbatim>\<open>/../server.js\<close>; \<^verbatim>\<open>path.join\<close> resolves it to \<^verbatim>\<open>server.js\<close> in the directory above
  \<^verbatim>\<open>public\<close>, and the content of that file is served with status 200.
\<close>

theorem static_file_served_from_outside_root:
  "server sampleEnv sampleTraversal sampleWorld = (Responded (Ok ''const http''), sampleWorld)
   \<and> statusCode (Ok ''const http'') = 200
   \<and> pathJoin (dirname sampleEnv) ''public'' (toFilePath (pathname sampleTraversal))
       = [''srv'', ''app'', ''server.js'']
   \<and> take 3 (pathJoin (dirname sampleEnv) ''public'' (toFilePath (pathname sampleTraversal)))
       \<noteq> dirname sampleEnv @ [''public'']"
  by (simp add: server_def sampleTraversal_def sampleEnv_def sampleWorld_def serveStatic_def
      toFilePath_def pathJoin_def endsWithSlash_def Let_def)


section \<open>Calendar slots\<close>

lemma getTimes_six_slots:
  "length (getTimesForDate d) = 6
   \<longleftrightarrow> getFullYear d = 2025 \<and> getMonth d = 7 \<and> getDate d = 23 \<and> getDay d = 6"
  by (auto simp: getTimesForDate_def Let_def)

lemma getTimes_on_override_date:
  "getFullYear d = 2025 \<and> getMonth d = 7 \<and> getDate d = 23 \<and> getDay d = 6
   \<Longrightarrow> getTimesForDate d = overrideSlots"
  by (simp add: getTimesForDate_def saturdaySlots_def overrideSlots_def Let_def)

lemma getTimes_override_only:
  "getTimesForDate d = overrideSlots
   \<Longrightarrow> getFullYear d = 2025 \<and> getMonth d = 7 \<and> getDate d = 23 \<and> getDay d = 6"
proof -
  assume "getTimesForDate d = overrideSlots"
  then have "length (getTimesForDate d) = 6" by (simp add: overrideSlots_def saturdaySlots_def)
  then show ?thesis by (simp only: getTimes_six_slots)
qed

lemma getTimes_saturday:
  "(getDay d = 6 \<and> \<not> (getFullYear d = 2025 \<and> getMonth d = 7 \<and> getDate d = 23)
        \<longrightarrow> getTimesForDate d = saturdaySlots)"
  by (simp add: getTimesForDate_def saturdaySlots_def Let_def)

lemma getTimes_weekday:
  "(1 \<le> getDay d \<and> getDay d \<le> 4
        \<longrightarrow> getTimesForDate d = [''15:00'', ''18:30'', ''20:30''])"
  by (simp add: getTimesForDate_def Let_def)

lemma getTimes_friday:
  "(getDay d = 5 \<longrightarrow> getTimesForDate d = [''09:30'', ''15:00'', ''19:30''])"
  by (simp add: getTimesForDate_def Let_def)

lemma getTimes_sunday:
  "(getDay d = 0
        \<longrightarrow> getTimesForDate d
            = [''09:30'', ''10:30'', ''11:10'', ''11:30'', ''12:30'', ''14:00'', ''15:00'',
               ''17:09'', ''18:30'', ''20:30''])"
  by (simp add: getTimesForDate_def Let_def)

text \<open>
  C8.  \<^verbatim>\<open>getTimesForDate\<close> is a function of the date alone.  It returns the override
  slots, the Saturday slots followed by 22:00, exactly for Saturday 23 August 2025
  (month 7 counted from 0); every other Saturday gets the Saturday slots; Monday to
  Thursday, Friday and Sunday get their own fixed slots.
\<close>

theorem getTimesForDate_slots:
  "saturdaySlots = [''09:30'', ''14:00'', ''16:00'', ''18:30'', ''20:30'']
   \<and> overrideSlots = [''09:30'', ''14:00'', ''16:00'', ''18:30'', ''20:30'', ''22:00'']
   \<and> (getTimesForDate d = overrideSlots
        \<longleftrightarrow> getFullYear d = 2025 \<and> getMonth d = 7 \<and> getDate d = 23 \<and> getDay d = 6)
   \<and> (getDay d = 6 \<and> \<not> (getFullYear d = 2025 \<and> getMonth d = 7 \<and> getDate d = 23)
        \<longrightarrow> getTimesForDate d = saturdaySlots)
   \<and> (1 \<le> getDay d \<and> getDay d \<le> 4
        \<longrightarrow> getTimesForDate d = [''15:00'', ''18:30'', ''20:30''])
   \<and> (getDay d = 5 \<longrightarrow> getTimesForDate d = [''09:30'', ''15:00'', ''19:30''])
   \<and> (getDay d = 0
        \<longrightarrow> getTimesForDate d
            = [''09:30'', ''10:30'', ''11:10'', ''11:30'', ''12:30'', ''14:00'', ''15:00'',
               ''17:09'', ''18:30'', ''20:30''])"
proof (intro conjI)
  show "saturdaySlots = [''09:30'', ''14:00'', ''16:00'', ''18:30'', ''20:30'']"
    by (simp add: saturdaySlots_def)
  show "overrideSlots = [''09:30'', ''14:00'', ''16:00'', ''18:30'', ''20:30'', ''22:00'']"
    by (simp add: saturdaySlots_def overrideSlots_def)
  show "getTimesForDate d = overrideSlots
        \<longleftrightarrow> getFullYear d = 2025 \<and> getMonth d = 7 \<and> getDate d = 23 \<and> getDay d = 6"
    using getTimes_on_override_date getTimes_override_only by blast
qed (rule getTimes_saturday getTimes_weekday getTimes_friday getTimes_sunday)+

theorem getTimesForDate_slots_witness:
  "getTimesForDate \<lparr>getFullYear = 2025, getMonth = 7, getDate = 23, getDay = 6\<rparr> = overrideSlots
   \<and> getTimesForDate \<lparr>getFullYear = 2025, getMonth = 7, getDate = 30, getDay = 6\<rparr> = saturdaySlots
   \<and> getTimesForDate \<lparr>getFullYear = 2025, getMonth = 7, getDate = 25, getDay = 1\<rparr>
       = [''15:00'', ''18:30'', ''20:30'']
   \<and> getTimesForDate \<lparr>getFullYear = 2025, getMonth = 7, getDate = 22, getDay = 5\<rparr>
       = [''09:30'', ''15:00'', ''19:30'']
   \<and> getTimesForDate \<lparr>getFullYear = 2025, getMonth = 7, getDate = 24, getDay = 0\<rparr>
       = [''09:30'', ''10:30'', ''11:10'', ''11:30'', ''12:30'', ''14:00'', ''15:00'',
          ''17:09'', ''18:30'', ''20:30'']"
proof (intro conjI)
  let ?d = "\<lparr>getFullYear = 2025, getMonth = 7, getDate = 23, getDay = 6\<rparr>"
  have "getFullYear ?d = 2025 \<and> getMonth ?d = 7 \<and> getDate ?d = 23 \<and> getDay ?d = 6" by simp
  with getTimesForDate_slots [of ?d] show "getTimesForDate ?d = overrideSlots" by blast
next
  let ?d = "\<lparr>getFullYear = 2025, getMonth = 7, getDate = 30, getDay = 6\<rparr>"
  have "getDay ?d = 6 \<and> \<not> (getFullYear ?d = 2025 \<and> getMonth ?d = 7 \<and> getDate ?d = 23)" by simp
  with getTimesForDate_slots [of ?d] show "getTimesForDate ?d = saturdaySlots" by blast
next
  let ?d = "\<lparr>getFullYear = 2025, getMonth = 7, getDate = 25, getDay = 1\<rparr>"
  have "1 \<le> getDay ?d \<and> getDay ?d \<le> 4" by simp
  with getTimesForDate_slots [of ?d]
  show "getTimesForDate ?d = [''15:00'', ''18:30'', ''20:30'']" by blast
next
  let ?d = "\<lparr>getFullYear = 2025, getMonth = 7, getDate = 22, getDay = 5\<rparr>"
  have "getDay ?d = 5" by simp
  with getTimesForDate_slots [of ?d]
  show "getTimesForDate ?d = [''09:30'', ''15:00'', ''19:30'']" by blast
next
  let ?d = "\<lparr>getFullYear = 2025, getMonth = 7, getDate = 24, getDay = 0\<rparr>"
  have "getDay ?d = 0" by simp
  with getTimesForDate_slots [of ?d]
  show "getTimesForDate ?d = [''09:30'', ''10:30'', ''11:10'', ''11:30'', ''12:30'', ''14:00'',
          ''15:00'', ''17:09'', ''18:30'', ''20:30'']" by blast
qed
end
